theory Spec2Isabelle
  imports Main "HOL-Library.Char_ord"
begin

section \<open>Regular expressions used by the launcher\<close>

text \<open>
  The launcher only calls \<open>RegExp.prototype.test\<close>, on literals built from characters,
  \<open>.\<close>, \<open>.*\<close>, \<open>x?\<close>, one two-way alternation, the anchors \<open>^\<close> and \<open>$\<close> and the
  flag \<open>i\<close>. A literal is embedded as a value of \<open>regex\<close>, and \<open>test\<close> is a backtracking
  matcher for this fragment. Strings are lists of 8-bit code units.
\<close>

datatype atom = Lit char | AnyChar

datatype item = One atom | Star atom | Opt atom | Alt2 "atom list" "atom list"

record regex =
  from_start :: bool
  items :: "item list"
  to_end :: bool
  ignore_case :: bool

text \<open>
  Without the \<open>u\<close> flag, \<open>i\<close> compares the upper-case forms of two code units, and a code
  unit outside ASCII is never identified with an ASCII one. Every pattern character
  below is ASCII, so folding the ASCII letters is exact for them.
\<close>

definition canonicalize :: "char \<Rightarrow> char" where
  "canonicalize c =
     (if CHR ''a'' \<le> c \<and> c \<le> CHR ''z'' then char_of (of_char c - (32::nat)) else c)"

text \<open>\<open>.\<close> matches every code unit except the line terminators (line feed, carriage return).\<close>

fun atom_ok :: "bool \<Rightarrow> atom \<Rightarrow> char \<Rightarrow> bool" where
  "atom_ok ci (Lit c) x = (if ci then canonicalize x = canonicalize c else x = c)"
| "atom_ok ci AnyChar x = (x \<noteq> CHR 0x0A \<and> x \<noteq> CHR 0x0D)"

fun match_atoms :: "bool \<Rightarrow> atom list \<Rightarrow> string \<Rightarrow> string option" where
  "match_atoms ci [] s = Some s"
| "match_atoms ci (a # as) [] = None"
| "match_atoms ci (a # as) (x # xs) = (if atom_ok ci a x then match_atoms ci as xs else None)"

fun match_here :: "bool \<Rightarrow> bool \<Rightarrow> item list \<Rightarrow> string \<Rightarrow> bool" where
  "match_here ci e [] s = (if e then s = [] else True)"
| "match_here ci e (One a # r) s =
     (case s of [] \<Rightarrow> False | x # xs \<Rightarrow> atom_ok ci a x \<and> match_here ci e r xs)"
| "match_here ci e (Opt a # r) s =
     ((case s of [] \<Rightarrow> False | x # xs \<Rightarrow> atom_ok ci a x \<and> match_here ci e r xs)
      \<or> match_here ci e r s)"
| "match_here ci e (Star a # r) s =
     ((case s of [] \<Rightarrow> False | x # xs \<Rightarrow> atom_ok ci a x \<and> match_here ci e (Star a # r) xs)
      \<or> match_here ci e r s)"
| "match_here ci e (Alt2 a b # r) s =
     ((case match_atoms ci a s of None \<Rightarrow> False | Some s' \<Rightarrow> match_here ci e r s')
      \<or> (case match_atoms ci b s of None \<Rightarrow> False | Some s' \<Rightarrow> match_here ci e r s'))"

fun search :: "bool \<Rightarrow> bool \<Rightarrow> item list \<Rightarrow> string \<Rightarrow> bool" where
  "search ci e its [] = match_here ci e its []"
| "search ci e its (x # xs) = (match_here ci e its (x # xs) \<or> search ci e its xs)"

definition test :: "regex \<Rightarrow> string \<Rightarrow> bool" where
  "test rx s =
     (if from_start rx then match_here (ignore_case rx) (to_end rx) (items rx) s
      else search (ignore_case rx) (to_end rx) (items rx) s)"

definition lits :: "string \<Rightarrow> item list" where
  "lits s = map (\<lambda>c. One (Lit c)) s"

text \<open>\<open>/unins.*\.exe$/i\<close>\<close>
definition rx_unins :: regex where
  "rx_unins = \<lparr>from_start = False,
     items = lits ''unins'' @ [Star AnyChar] @ lits ''.exe'', to_end = True, ignore_case = True\<rparr>"

text \<open>\<open>/^kick\.bin/i\<close>\<close>
definition rx_kick :: regex where
  "rx_kick = \<lparr>from_start = True, items = lits ''kick.bin'', to_end = False, ignore_case = True\<rparr>"

text \<open>\<open>/nwjc\.exe$/i\<close>\<close>
definition rx_nwjc :: regex where
  "rx_nwjc = \<lparr>from_start = False, items = lits ''nwjc.exe'', to_end = True, ignore_case = True\<rparr>"

text \<open>\<open>/dxwebsetup\.exe$/i\<close>\<close>
definition rx_dxwebsetup :: regex where
  "rx_dxwebsetup = \<lparr>from_start = False,
     items = lits ''dxwebsetup.exe'', to_end = True, ignore_case = True\<rparr>"

text \<open>\<open>/vcredist.*\.exe$/i\<close>\<close>
definition rx_vcredist :: regex where
  "rx_vcredist = \<lparr>from_start = False,
     items = lits ''vcredist'' @ [Star AnyChar] @ lits ''.exe'', to_end = True, ignore_case = True\<rparr>"

text \<open>\<open>/\.(so|dylib)/\<close>\<close>
definition rx_shared_lib :: regex where
  "rx_shared_lib = \<lparr>from_start = False,
     items = lits ''.'' @ [Alt2 (map Lit ''so'') (map Lit ''dylib'')],
     to_end = False, ignore_case = False\<rparr>"

text \<open>\<open>/\.sh/\<close>\<close>
definition rx_sh :: regex where
  "rx_sh = \<lparr>from_start = False, items = lits ''.sh'', to_end = False, ignore_case = False\<rparr>"

text \<open>\<open>/\.app\/?$/\<close>\<close>
definition rx_app :: regex where
  "rx_app = \<lparr>from_start = False,
     items = lits ''.app'' @ [Opt (Lit CHR ''/'')], to_end = True, ignore_case = False\<rparr>"

text \<open>\<open>/\.jar$/i\<close>\<close>
definition rx_jar :: regex where
  "rx_jar = \<lparr>from_start = False, items = lits ''.jar'', to_end = True, ignore_case = True\<rparr>"

section \<open>Candidates and the scorer\<close>

text \<open>
  A candidate is the object \<open>{path}\<close>; \<open>weight\<close>, \<open>score\<close> and \<open>depth\<close> are attached by
  the pipeline stages and are absent (\<open>None\<close>) before.
\<close>

record candidate =
  path :: string
  weight :: "int option"
  score :: "int option"
  depth :: "nat option"

definition mk_candidate :: "string \<Rightarrow> candidate" where
  "mk_candidate p = \<lparr>path = p, weight = None, score = None, depth = None\<rparr>"

text \<open>The body of the loop of \<open>computeScore\<close>: the score given to one path.\<close>

definition scoreOf :: "string \<Rightarrow> int" where
  "scoreOf p =
     (let score = 100;
          score = (if test rx_unins p then score - 50 else score);
          score = (if test rx_kick p then score - 50 else score);
          score = (if test rx_nwjc p then score - 20 else score);
          score = (if test rx_dxwebsetup p then 0 else score);
          score = (if test rx_vcredist p then 0 else score);
          score = (if test rx_shared_lib p then 0 else score);
          score = (if test rx_sh p then score + 20 else score)
      in score)"

fun computeScore :: "candidate list \<Rightarrow> candidate list" where
  "computeScore [] = []"
| "computeScore (exe # execs) =
     (let s = scoreOf (path exe); exe' = exe\<lparr>score := Some s\<rparr>
      in if s > 0 then exe' # computeScore execs else computeScore execs)"

section \<open>JavaScript values and \<open>ensureArray\<close>\<close>

text \<open>
  The values of an API response after JSON decoding: primitives, arrays, and objects as
  association lists of their own properties. Numbers are the integers and \<open>NaN\<close>, which
  is all that truthiness distinguishes.
\<close>

datatype jsval =
    Undefined
  | Null
  | Boolean bool
  | Number int
  | NaN
  | String string
  | Array "jsval list"
  | Object "(string \<times> jsval) list"

datatype error =
    Crash string string
  | Error string "string list option"
  | TypeError string
  | InvariantViolation string

fun truthy :: "jsval \<Rightarrow> bool" where
  "truthy Undefined = False"
| "truthy Null = False"
| "truthy (Boolean b) = b"
| "truthy (Number n) = (n \<noteq> 0)"
| "truthy NaN = False"
| "truthy (String s) = (s \<noteq> [])"
| "truthy (Array xs) = True"
| "truthy (Object fs) = True"

text \<open>
  Reading the property \<open>k\<close> of a value, for a name \<open>k\<close> that is not an array index.
  Reading a property of \<open>undefined\<close> or \<open>null\<close> throws.
\<close>

fun get_prop :: "jsval \<Rightarrow> string \<Rightarrow> error + jsval" where
  "get_prop Undefined k = Inl (TypeError ''Cannot read property of undefined'')"
| "get_prop Null k = Inl (TypeError ''Cannot read property of null'')"
| "get_prop (String s) k = Inr (if k = ''length'' then Number (int (length s)) else Undefined)"
| "get_prop (Array xs) k = Inr (if k = ''length'' then Number (int (length xs)) else Undefined)"
| "get_prop (Object fs) k = Inr (case map_of fs k of Some v \<Rightarrow> v | None \<Rightarrow> Undefined)"
| "get_prop v k = Inr Undefined"

definition ensureArray :: "jsval \<Rightarrow> error + jsval" where
  "ensureArray v =
     (if \<not> truthy v then Inr (Array [])
      else case get_prop v ''length'' of
             Inl e \<Rightarrow> Inl e
           | Inr len \<Rightarrow> if \<not> truthy len then Inr (Array []) else Inr v)"

section \<open>The environment of a launch\<close>

record cave =
  executables :: "string list"

record opts =
  opts_cave :: "cave option"
  isolateApps :: bool

record spawn_request =
  command :: "string option"
  args :: "string list"
  cwd :: "string option"

record spawn_result =
  exit_code :: int
  stdout_tokens :: "string list"
  stderr_tokens :: "string list"

text \<open>
  What the launcher reads from its collaborators, none of which is part of the launcher:
  the platform name, Node's \<open>path\<close> module, \<open>sf.stat\<close> (\<open>None\<close> when the promise is
  rejected, otherwise the size), \<open>shellQuote.parse\<close>, \<open>spawn\<close>, \<open>pathmaker.appPath\<close>,
  the sandbox template, \<open>sf.writeFile\<close> (\<open>Some e\<close> when it throws \<open>e\<close>) and \<open>JSON.parse\<close>
  (\<open>None\<close> when it throws).
\<close>

record env =
  platform :: string
  path_sep :: char
  path_join :: "string list \<Rightarrow> string"
  path_dirname :: "string \<Rightarrow> string"
  path_normalize :: "string \<Rightarrow> string"
  stat_size :: "string \<Rightarrow> int option"
  shell_parse :: "string \<Rightarrow> string list"
  spawn :: "spawn_request \<Rightarrow> spawn_result"
  app_path :: "cave \<Rightarrow> string"
  sandbox_template :: string
  write_file :: "string \<Rightarrow> string \<Rightarrow> error option"
  json_parse :: "string \<Rightarrow> jsval option"

section \<open>Strings\<close>

definition digit :: "nat \<Rightarrow> char" where
  "digit n = char_of (48 + n)"

fun show_nat :: "nat \<Rightarrow> string" where
  "show_nat n = (if n < 10 then [digit n] else show_nat (n div 10) @ [digit (n mod 10)])"

text \<open>An integer as a template literal prints it.\<close>

definition show_int :: "int \<Rightarrow> string" where
  "show_int i = (if i < 0 then CHR ''-'' # show_nat (nat (- i)) else show_nat (nat i))"

text \<open>\<open>Array.prototype.join\<close> on strings.\<close>

fun joinStr :: "string \<Rightarrow> string list \<Rightarrow> string" where
  "joinStr sep [] = []"
| "joinStr sep [x] = x"
| "joinStr sep (x # y # ys) = x @ sep @ joinStr sep (y # ys)"

text \<open>\<open>String.prototype.split\<close> with a separator of one code unit.\<close>

fun split :: "char \<Rightarrow> string \<Rightarrow> string list" where
  "split c [] = [[]]"
| "split c (x # xs) =
     (if x = c then [] # split c xs
      else case split c xs of [] \<Rightarrow> [[x]] | w # ws \<Rightarrow> (x # w) # ws)"

text \<open>ASCII and Latin-1 capitals to lower case, as \<open>toLowerCase\<close> maps 8-bit code units.\<close>

definition lower_char :: "char \<Rightarrow> char" where
  "lower_char c =
     (let n = (of_char c :: nat)
      in if (65 \<le> n \<and> n \<le> 90) \<or> (192 \<le> n \<and> n \<le> 222 \<and> n \<noteq> 215) then char_of (n + 32) else c)"

definition toLowerCase :: "string \<Rightarrow> string" where
  "toLowerCase s = map lower_char s"

text \<open>
  The replacement text of \<open>String.prototype.replace\<close> for a pattern without groups:
  \<open>$$\<close>, \<open>$&\<close>, \<open>$`\<close> and \<open>$'\<close> are expanded.
\<close>

fun expand :: "string \<Rightarrow> string \<Rightarrow> string \<Rightarrow> string \<Rightarrow> string" where
  "expand pre matched post [] = []"
| "expand pre matched post [c] = [c]"
| "expand pre matched post (c # d # r) =
     (if c = CHR ''$'' \<and> d = CHR ''$'' then CHR ''$'' # expand pre matched post r
      else if c = CHR ''$'' \<and> d = CHR ''&'' then matched @ expand pre matched post r
      else if c = CHR ''$'' \<and> d = CHR 0x60 then pre @ expand pre matched post r
      else if c = CHR ''$'' \<and> d = CHR 0x27 then post @ expand pre matched post r
      else c # expand pre matched post (d # r))"

text \<open>\<open>s.replace(/pat/, repl)\<close> for a literal pattern: the first occurrence only.\<close>

fun replace_from :: "string \<Rightarrow> string \<Rightarrow> string \<Rightarrow> string \<Rightarrow> string" where
  "replace_from pat repl pre [] =
     (if pat = [] then expand pre [] [] repl else [])"
| "replace_from pat repl pre (x # xs) =
     (if take (length pat) (x # xs) = pat
      then expand pre pat (drop (length pat) (x # xs)) repl @ drop (length pat) (x # xs)
      else x # replace_from pat repl (pre @ [x]) xs)"

definition replace_first :: "string \<Rightarrow> string \<Rightarrow> string \<Rightarrow> string" where
  "replace_first pat repl s = replace_from pat repl [] s"

section \<open>The launcher\<close>

text \<open>
  \<open>sh\<close>: the command line is tokenized, its first token is the command, and the exit
  code of the child decides the outcome. Logging has no part in the result and is left
  out, with the \<open>opts\<close> argument that only it reads.
\<close>

definition sh_request :: "env \<Rightarrow> string \<Rightarrow> string \<Rightarrow> spawn_request" where
  "sh_request env exePath fullCommand =
     (let dir = path_dirname env exePath;
          toks = shell_parse env fullCommand;
          cmd = (case toks of [] \<Rightarrow> None | c # _ \<Rightarrow> Some c)
      in \<lparr>command = cmd, args = tl toks, cwd = Some dir\<rparr>)"

definition sh :: "env \<Rightarrow> string \<Rightarrow> string \<Rightarrow> error + string" where
  "sh env exePath fullCommand =
     (let code = exit_code (spawn env (sh_request env exePath fullCommand))
      in if code \<noteq> 0 then Inl (Crash exePath (''process exited with code '' @ show_int code))
         else Inr ''child completed successfully'')"

definition escape :: "string \<Rightarrow> string" where
  "escape arg =
     [CHR 0x22] @ concat (map (\<lambda>c. if c = CHR 0x22 then [CHR 0x5C, CHR 0x22] else [c]) arg)
     @ [CHR 0x22]"

text \<open>
  \<open>computeWeight\<close>: what one probe appends to \<open>output\<close> when its \<open>stat\<close> settles, and the
  probes in the order in which they settle. Up to four probes are in flight at once and
  each appends when its own \<open>stat\<close> settles, so the order of \<open>output\<close> is the order of
  completion, which the file system decides: it is the argument \<open>completion\<close>, the
  indices of \<open>execs\<close> in that order. \<open>computeWeight\<close> returns once every probe has
  settled, so the completion order of a run is a permutation of the indices of \<open>execs\<close>;
  with more than four candidates the limit of four rules some permutations out, and what
  holds for every list of indices holds for every run.
\<close>

definition probe :: "env \<Rightarrow> string \<Rightarrow> candidate \<Rightarrow> candidate list" where
  "probe env appPath exe =
     (case stat_size env (path_join env [appPath, path exe]) of
        None \<Rightarrow> []
      | Some sz \<Rightarrow> [exe\<lparr>weight := Some sz\<rparr>])"

fun computeWeight :: "env \<Rightarrow> nat list \<Rightarrow> string \<Rightarrow> candidate list \<Rightarrow> candidate list" where
  "computeWeight env [] appPath execs = []"
| "computeWeight env (i # completion) appPath execs =
     (if i < length execs then probe env appPath (execs ! i) else [])
     @ computeWeight env completion appPath execs"

definition depthOf :: "env \<Rightarrow> string \<Rightarrow> nat" where
  "depthOf env p = length (split (path_sep env) (path_normalize env p))"

definition computeDepth :: "env \<Rightarrow> candidate list \<Rightarrow> candidate list" where
  "computeDepth env execs = map (\<lambda>exe. exe\<lparr>depth := Some (depthOf env (path exe))\<rparr>) execs"

text \<open>
  \<open>sortBy\<close> sorts ascending on the key and breaks ties by the index in its input.
\<close>

definition sortBy :: "('a \<Rightarrow> int) \<Rightarrow> 'a list \<Rightarrow> 'a list" where
  "sortBy f xs = sort_key f xs"

text \<open>
  The three keys. A field that is absent would give the key \<open>NaN\<close>; \<open>launch\<close> sorts only
  candidates that have all three fields.
\<close>

definition neg_weight :: "candidate \<Rightarrow> int" where
  "neg_weight x = (case weight x of Some w \<Rightarrow> - w | None \<Rightarrow> 0)"

definition neg_score :: "candidate \<Rightarrow> int" where
  "neg_score x = (case score x of Some s \<Rightarrow> - s | None \<Rightarrow> 0)"

definition depth_key :: "candidate \<Rightarrow> int" where
  "depth_key x = (case depth x of Some d \<Rightarrow> int d | None \<Rightarrow> 0)"

definition isAppBundle :: "string \<Rightarrow> bool" where
  "isAppBundle exePath = test rx_app (toLowerCase exePath)"

definition getFullExec :: "env \<Rightarrow> string \<Rightarrow> error + string" where
  "getFullExec env exePath =
     (let plistPath = path_join env [exePath, ''Contents'', ''Info.pList''];
          r = spawn env \<lparr>command = Some ''plutil'',
                args = [''-convert'', ''json'', ''-o'', ''-'', plistPath], cwd = None\<rparr>;
          out = concat (map (\<lambda>tok. tok @ [CHR 0x0A]) (stdout_tokens r))
      in if exit_code r \<noteq> 0
         then Inl (Error (''plutil failed with code '' @ show_int (exit_code r)) None)
         else case (case json_parse env out of
                      None \<Rightarrow> Inl (Error ''SyntaxError'' None)
                    | Some plObj \<Rightarrow> get_prop plObj ''CFBundleExecutable'') of
                Inl e \<Rightarrow>
                  Inl (Error (''invalid app bundle '' @ exePath @ '': couldn'' @ [CHR 0x27]
                              @ ''t parse metadata'') None)
              | Inr (String exec) \<Rightarrow> Inr (path_join env [exePath, ''Contents'', ''MacOS'', exec])
              | Inr other \<Rightarrow> Inl (TypeError ''Path must be a string''))"

definition launchExecutable :: "env \<Rightarrow> string \<Rightarrow> string list \<Rightarrow> opts \<Rightarrow> error + string" where
  "launchExecutable env exePath arguments options =
     (let argString = joinStr '' '' (map escape arguments)
      in if platform env = ''darwin'' \<and> isAppBundle exePath then
           (case getFullExec env exePath of
              Inl e \<Rightarrow> Inl e
            | Inr fullExec \<Rightarrow>
                (let cmd = escape fullExec @ '' '' @ argString
                 in if isolateApps options then
                      (case opts_cave options of
                         None \<Rightarrow> Inl (TypeError ''appPath of undefined'')
                       | Some c \<Rightarrow>
                           (let appPath = app_path env c;
                                sandboxProfilePath =
                                  path_join env [appPath, ''.itch'', ''isolate-app.sb''];
                                sandboxSource =
                                  replace_first ''{{INSTALL_LOCATION}}'' appPath
                                    (sandbox_template env)
                            in case write_file env sandboxProfilePath sandboxSource of
                                 Some e \<Rightarrow> Inl e
                               | None \<Rightarrow>
                                   sh env fullExec
                                     (''sandbox-exec -f '' @ escape sandboxProfilePath
                                      @ '' '' @ cmd @ ''}'')))
                    else sh env exePath cmd))
         else
           (let cmd = escape exePath;
                cmd = (if length argString > 0 then cmd @ '' '' @ argString else cmd)
            in sh env exePath cmd))"

text \<open>
  The candidates of \<open>launch\<close> before the three sorts, and after them. \<open>launch\<close> does not
  read its argument \<open>out\<close>, which is left out; the completion order of the probes is passed
  on to \<open>computeWeight\<close>.
\<close>

definition scored :: "env \<Rightarrow> nat list \<Rightarrow> string \<Rightarrow> string list \<Rightarrow> candidate list" where
  "scored env completion appPath paths =
     computeDepth env (computeScore (computeWeight env completion appPath (map mk_candidate paths)))"

definition ranked :: "candidate list \<Rightarrow> candidate list" where
  "ranked candidates = sortBy depth_key (sortBy neg_score (sortBy neg_weight candidates))"

definition launch :: "env \<Rightarrow> nat list \<Rightarrow> opts \<Rightarrow> error + string" where
  "launch env completion options =
     (case opts_cave options of
        None \<Rightarrow> Inl (InvariantViolation ''launch-native has cave'')
      | Some c \<Rightarrow>
          (let appPath = app_path env c;
               candidates = ranked (scored env completion appPath (executables c))
           in case candidates of
                [] \<Rightarrow> Inl (Error ''After weighing/sorting, no executables left''
                              (Some [''game.install.no_executables_found'']))
              | best # _ \<Rightarrow>
                  (let exePath = path_join env [appPath, path best]
                   in if test rx_jar exePath
                      then launchExecutable env ''java'' [''-jar'', exePath] options
                      else launchExecutable env exePath [] options)))"

text \<open>The completion order in which the probes settle in the order of the input.\<close>

definition in_order :: "'a list \<Rightarrow> nat list" where
  "in_order xs = [0..<length xs]"

section \<open>A test environment\<close>

text \<open>
  A POSIX-like environment for evaluating the launcher on concrete inputs: the files
  that exist, with their sizes, and the exit code of every child are given; paths are
  joined with \<open>/\<close> and are already normal; the tokenizer returns its input as one token.
\<close>

definition test_env :: "(string \<times> int) list \<Rightarrow> int \<Rightarrow> env" where
  "test_env files code =
     \<lparr>platform = ''linux'',
      path_sep = CHR ''/'',
      path_join = joinStr ''/'',
      path_dirname = (\<lambda>p. ''.''),
      path_normalize = (\<lambda>p. p),
      stat_size = map_of files,
      shell_parse = (\<lambda>s. [s]),
      spawn = (\<lambda>r. \<lparr>exit_code = code, stdout_tokens = [], stderr_tokens = []\<rparr>),
      app_path = (\<lambda>c. ''/app''),
      sandbox_template = [],
      write_file = (\<lambda>p s. None),
      json_parse = (\<lambda>s. None)\<rparr>"

definition test_opts :: "string list \<Rightarrow> opts" where
  "test_opts paths = \<lparr>opts_cave = Some \<lparr>executables = paths\<rparr>, isolateApps = False\<rparr>"

text \<open>
  A tokenizer for the test environment. It reads a command line as a shell reads words:
  blanks separate words outside double quotes; inside double quotes a backslash before a
  double quote, a backslash or a dollar sign gives that character, and a dollar sign
  followed by a name stands for the variable of that name, which is unset and gives
  nothing.
\<close>

datatype mode = Outside | Inside | Escaped | Variable

definition is_name :: "char \<Rightarrow> bool" where
  "is_name c =
     ((CHR ''a'' \<le> c \<and> c \<le> CHR ''z'') \<or> (CHR ''A'' \<le> c \<and> c \<le> CHR ''Z'')
      \<or> (CHR ''0'' \<le> c \<and> c \<le> CHR ''9'') \<or> c = CHR ''_'')"

fun scan :: "mode \<Rightarrow> string \<Rightarrow> bool \<Rightarrow> string \<Rightarrow> string list" where
  "scan m w started [] = (if started then [w] else [])"
| "scan Outside w started (c # r) =
     (if c = CHR '' '' then (if started then w # scan Outside [] False r else scan Outside [] False r)
      else if c = CHR 0x22 then scan Inside w True r
      else scan Outside (w @ [c]) True r)"
| "scan Escaped w started (c # r) =
     (if c = CHR 0x22 \<or> c = CHR 0x5C \<or> c = CHR ''$'' then scan Inside (w @ [c]) True r
      else scan Inside (w @ [CHR 0x5C, c]) True r)"
| "scan Variable w started (c # r) =
     (if is_name c then scan Variable w True r
      else if c = CHR 0x22 then scan Outside w True r
      else if c = CHR 0x5C then scan Escaped w True r
      else if c = CHR ''$'' then scan Variable w True r
      else scan Inside (w @ [c]) True r)"
| "scan Inside w started (c # r) =
     (if c = CHR 0x22 then scan Outside w True r
      else if c = CHR 0x5C then scan Escaped w True r
      else if c = CHR ''$'' then scan Variable w True r
      else scan Inside (w @ [c]) True r)"

definition test_tokens :: "string \<Rightarrow> string list" where
  "test_tokens s = scan Outside [] False s"

definition shell_env :: "(string \<times> int) list \<Rightarrow> int \<Rightarrow> env" where
  "shell_env files code = (test_env files code)\<lparr>shell_parse := test_tokens\<rparr>"

section \<open>What the three stages compute\<close>

text \<open>
  The candidate that the three stages make of a path, and the paths that they keep:
  those whose file exists and whose score is positive.
\<close>

definition annotated :: "env \<Rightarrow> string \<Rightarrow> string \<Rightarrow> candidate" where
  "annotated env a p =
     \<lparr>path = p, weight = stat_size env (path_join env [a, p]),
      score = Some (scoreOf p), depth = Some (depthOf env p)\<rparr>"

definition retained :: "env \<Rightarrow> string \<Rightarrow> string \<Rightarrow> bool" where
  "retained env a p = (stat_size env (path_join env [a, p]) \<noteq> None \<and> 0 < scoreOf p)"

section \<open>Shared lemmas\<close>

lemma computeScore_sound:
  "e \<in> set (computeScore execs) \<Longrightarrow> score e = Some (scoreOf (path e)) \<and> 0 < scoreOf (path e)"
  by (induction execs) (auto simp: Let_def split: if_splits)

lemma set_sortBy: "set (sortBy f xs) = set xs"
  by (simp add: sortBy_def)

lemma set_ranked: "set (ranked xs) = set xs"
  by (simp add: ranked_def set_sortBy)

lemma computeDepth_fields:
  "e \<in> set (computeDepth env xs) \<Longrightarrow>
     \<exists>x \<in> set xs. path e = path x \<and> score e = score x \<and> weight e = weight x"
  by (auto simp: computeDepth_def)

lemma probe_weight: "e \<in> set (probe env a x) \<Longrightarrow> weight e \<noteq> None"
  by (cases "stat_size env (path_join env [a, path x])") (simp_all add: probe_def)

lemma computeWeight_weight:
  "e \<in> set (computeWeight env completion a execs) \<Longrightarrow> weight e \<noteq> None"
  by (induction completion) (auto dest: probe_weight split: if_splits)

lemma computeScore_weight:
  "e \<in> set (computeScore execs) \<Longrightarrow> weight e \<in> weight ` set execs"
proof (induction execs)
  case Nil
  then show ?case by simp
next
  case (Cons x xs)
  then show ?case
    by (cases "0 < scoreOf (path x)") (auto simp: Let_def)
qed

text \<open>Every candidate that \<open>launch\<close> sorts has its three fields.\<close>

lemma scored_fields:
  assumes "e \<in> set (scored env completion a ps)"
  shows "weight e \<noteq> None \<and> score e \<noteq> None \<and> depth e \<noteq> None"
proof -
  from assms obtain x
    where x: "x \<in> set (computeScore (computeWeight env completion a (map mk_candidate ps)))"
      and eq: "weight e = weight x" "score e = score x"
    unfolding scored_def by (blast dest: computeDepth_fields)
  from computeScore_weight [OF x] obtain y
    where "y \<in> set (computeWeight env completion a (map mk_candidate ps))"
      and "weight x = weight y"
    by auto
  then have "weight e \<noteq> None"
    using computeWeight_weight [of y] eq by simp
  moreover have "score e \<noteq> None"
    using computeScore_sound [OF x] eq by simp
  moreover have "depth e \<noteq> None"
    using assms by (auto simp: scored_def computeDepth_def)
  ultimately show ?thesis by simp
qed

lemma scored_sound:
  assumes "e \<in> set (scored env completion a ps)"
  shows "score e = Some (scoreOf (path e)) \<and> 0 < scoreOf (path e)"
proof -
  from assms obtain x
    where x: "x \<in> set (computeScore (computeWeight env completion a (map mk_candidate ps)))"
      and eq: "path e = path x" "score e = score x"
    unfolding scored_def by (blast dest: computeDepth_fields)
  from computeScore_sound [OF x] eq show ?thesis by simp
qed

text \<open>
  A stable sort does not move the elements of a class on which its key is constant.
\<close>

lemma filter_sortBy_const:
  assumes "\<And>x. P x \<Longrightarrow> f x = k"
  shows "filter P (sortBy f xs) = filter P xs"
proof -
  have narrow: "filter P ys = filter P (filter (\<lambda>y. f y = k) ys)" for ys
    using assms by (induction ys) auto
  have "filter P (sortBy f xs) = filter P (filter (\<lambda>y. f y = k) (sort_key f xs))"
    unfolding sortBy_def by (rule narrow)
  also have "\<dots> = filter P (filter (\<lambda>y. f y = k) xs)"
    by (simp only: sort_key_stable)
  also have "\<dots> = filter P xs"
    by (rule narrow [symmetric])
  finally show ?thesis .
qed

lemma ranked_stable:
  "filter (\<lambda>x. weight x = w \<and> score x = s \<and> depth x = d) (ranked cs)
   = filter (\<lambda>x. weight x = w \<and> score x = s \<and> depth x = d) cs"
proof -
  let ?K = "\<lambda>x. weight x = w \<and> score x = s \<and> depth x = d"
  have kw: "?K x \<Longrightarrow> neg_weight x = (case w of Some v \<Rightarrow> - v | None \<Rightarrow> 0)" for x
    by (auto simp: neg_weight_def)
  have ks: "?K x \<Longrightarrow> neg_score x = (case s of Some v \<Rightarrow> - v | None \<Rightarrow> 0)" for x
    by (auto simp: neg_score_def)
  have kd: "?K x \<Longrightarrow> depth_key x = (case d of Some v \<Rightarrow> int v | None \<Rightarrow> 0)" for x
    by (auto simp: depth_key_def)
  have "filter ?K (ranked cs) = filter ?K (sortBy neg_score (sortBy neg_weight cs))"
    unfolding ranked_def by (rule filter_sortBy_const [OF kd])
  also have "\<dots> = filter ?K (sortBy neg_weight cs)"
    by (rule filter_sortBy_const [OF ks])
  also have "\<dots> = filter ?K cs"
    by (rule filter_sortBy_const [OF kw])
  finally show ?thesis .
qed

text \<open>
  The stat stage puts out the candidates in the order in which their probes settle.
\<close>

lemma computeWeight_settled:
  "computeWeight env js a execs
   = concat (map (probe env a) (map ((!) execs) (filter (\<lambda>i. i < length execs) js)))"
  by (induction js) simp_all

lemma stages_in_order:
  "computeDepth env (computeScore (concat (map (probe env a) (map mk_candidate ps))))
   = map (annotated env a) (filter (retained env a) ps)"
  by (induction ps)
     (auto simp: probe_def mk_candidate_def computeDepth_def annotated_def retained_def Let_def
           split: option.splits)

lemma scored_settled:
  "scored env completion a ps
   = map (annotated env a)
       (filter (retained env a) (map ((!) ps) (filter (\<lambda>i. i < length ps) completion)))"
proof -
  have "map ((!) (map mk_candidate ps)) (filter (\<lambda>i. i < length ps) completion)
        = map mk_candidate (map ((!) ps) (filter (\<lambda>i. i < length ps) completion))"
    by simp
  then have "computeWeight env completion a (map mk_candidate ps)
        = concat (map (probe env a)
            (map mk_candidate (map ((!) ps) (filter (\<lambda>i. i < length ps) completion))))"
    by (simp only: computeWeight_settled length_map)
  then show ?thesis
    by (simp only: scored_def stages_in_order)
qed

text \<open>
  A force-to-zero rule overrides the penalties applied before it: without the \<open>.sh\<close>
  bonus the score is 0 whatever penalties apply.
\<close>

lemma force_zero_overrides_penalties:
  assumes "test rx_dxwebsetup p \<or> test rx_vcredist p \<or> test rx_shared_lib p"
      and "\<not> test rx_sh p"
  shows "scoreOf p = 0"
  using assms by (auto simp add: scoreOf_def Let_def)

lemma uninstaller_redistributable:
  "test rx_unins ''unins/vcredist_x86.exe'' \<and> scoreOf ''unins/vcredist_x86.exe'' = 0"
  by code_simp

lemma score_game: "scoreOf ''game.exe'' = 100"
  by code_simp

lemma score_uninstaller: "scoreOf ''unins000.exe'' = 50"
  by code_simp

lemma java_not_bundle: "\<not> isAppBundle ''java''"
  by code_simp

text \<open>
  \<open>escape\<close> loses nothing: two arguments with the same quoted form are equal.
\<close>

lemma quoted_not_quote:
  "concat (map (\<lambda>c. if c = CHR 0x22 then [CHR 0x5C, CHR 0x22] else [c]) ys) \<noteq> CHR 0x22 # zs"
  by (cases ys) auto

lemma quoted_inj:
  "concat (map (\<lambda>c. if c = CHR 0x22 then [CHR 0x5C, CHR 0x22] else [c]) xs)
   = concat (map (\<lambda>c. if c = CHR 0x22 then [CHR 0x5C, CHR 0x22] else [c]) ys) \<Longrightarrow> xs = ys"
proof (induction xs arbitrary: ys)
  case Nil
  then show ?case by (cases ys) (auto split: if_splits)
next
  case (Cons x xs)
  show ?case
  proof (cases ys)
    case Nil
    with Cons.prems show ?thesis by (auto split: if_splits)
  next
    case (Cons y ys')
    with Cons.prems Cons.IH [of ys'] quoted_not_quote [of xs] quoted_not_quote [of ys']
      quoted_not_quote [of xs, THEN not_sym] quoted_not_quote [of ys', THEN not_sym]
    show ?thesis by (auto split: if_splits)
  qed
qed

lemma escape_inj: "escape a = escape b \<Longrightarrow> a = b"
  by (auto simp: escape_def dest: quoted_inj)

text \<open>
  \<open>escape\<close> writes a backslash as it is: the quoted form of a lone backslash ends in the
  two code units with which \<open>escape\<close> writes a double quote.
\<close>

lemma escape_backslash:
  "escape [CHR 0x5C] = [CHR 0x22, CHR 0x5C, CHR 0x22]
   \<and> escape [CHR 0x22] = [CHR 0x22, CHR 0x5C, CHR 0x22, CHR 0x22]"
  by (simp add: escape_def)

section \<open>The scorer\<close>

text \<open>
  C1. For the candidates \<open>game.exe\<close> (size 500) and \<open>unins000.exe\<close> (size 600), at equal
  depth, the scorer gives the uninstaller 50 and the game 100; the sort on weight puts
  the uninstaller first, the sort on score puts the game first, the sort on depth keeps
  that, so the ranked order is \<open>game.exe\<close>, \<open>unins000.exe\<close> and the head is \<open>game.exe\<close>.
  This holds for both orders in which the two probes can settle.
\<close>

theorem ranking_example:
  assumes "stat_size env (path_join env [a, ''game.exe'']) = Some 500"
      and "stat_size env (path_join env [a, ''unins000.exe'']) = Some 600"
      and "depthOf env ''game.exe'' = depthOf env ''unins000.exe''"
      and "completion = [0, 1] \<or> completion = [1, 0]"
      and "cs = scored env completion a [''game.exe'', ''unins000.exe'']"
  shows "scoreOf ''unins000.exe'' = 50 \<and> scoreOf ''game.exe'' = 100
       \<and> map path (sortBy neg_weight cs) = [''unins000.exe'', ''game.exe'']
       \<and> map path (sortBy neg_score (sortBy neg_weight cs)) = [''game.exe'', ''unins000.exe'']
       \<and> map path (ranked cs) = [''game.exe'', ''unins000.exe'']
       \<and> map score (ranked cs) = [Some 100, Some 50]
       \<and> path (hd (ranked cs)) = ''game.exe''"
  using assms
  by (auto simp: score_game score_uninstaller scored_def probe_def mk_candidate_def
      computeDepth_def ranked_def sortBy_def neg_weight_def neg_score_def depth_key_def Let_def)

theorem ranking_example_witness:
  "stat_size (test_env [(''/app/game.exe'', 500), (''/app/unins000.exe'', 600)] 0)
     (path_join (test_env [(''/app/game.exe'', 500), (''/app/unins000.exe'', 600)] 0)
        [''/app'', ''game.exe'']) = Some 500
   \<and> stat_size (test_env [(''/app/game.exe'', 500), (''/app/unins000.exe'', 600)] 0)
     (path_join (test_env [(''/app/game.exe'', 500), (''/app/unins000.exe'', 600)] 0)
        [''/app'', ''unins000.exe'']) = Some 600
   \<and> depthOf (test_env [(''/app/game.exe'', 500), (''/app/unins000.exe'', 600)] 0) ''game.exe''
     = depthOf (test_env [(''/app/game.exe'', 500), (''/app/unins000.exe'', 600)] 0) ''unins000.exe''
   \<and> map path (ranked (scored (test_env [(''/app/game.exe'', 500), (''/app/unins000.exe'', 600)] 0)
        [0, 1] ''/app'' [''game.exe'', ''unins000.exe''])) = [''game.exe'', ''unins000.exe'']
   \<and> path (hd (ranked (scored (test_env [(''/app/game.exe'', 500), (''/app/unins000.exe'', 600)] 0)
        [0, 1] ''/app'' [''game.exe'', ''unins000.exe'']))) = ''game.exe''"
proof -
  let ?E = "test_env [(''/app/game.exe'', 500), (''/app/unins000.exe'', 600)] 0"
  have h1: "stat_size ?E (path_join ?E [''/app'', ''game.exe'']) = Some 500"
    by code_simp
  have h2: "stat_size ?E (path_join ?E [''/app'', ''unins000.exe'']) = Some 600"
    by code_simp
  have h3: "depthOf ?E ''game.exe'' = depthOf ?E ''unins000.exe''"
    by code_simp
  have h4: "[0, 1] = [0, 1] \<or> [0, 1] = [1, 0::nat]"
    by simp
  from ranking_example [OF h1 h2 h3 h4 refl] h1 h2 h3 show ?thesis
    by simp
qed

text \<open>
  C2, as stated: every score lies in the closed range from 0 to 100. The bonus for
  \<open>.sh\<close> is added to the base score of 100, and the three penalties add up to 120.
\<close>

theorem score_range_counterexample:
  "scoreOf ''game.sh'' = 120 \<and> scoreOf ''kick.bin/unins/nwjc.exe'' = - 20"
  by code_simp

text \<open>
  C2, amended: for every candidate path string, the score computed by the scorer lies in
  the closed range from -20 to 120.
\<close>

theorem score_bounds: "- 20 \<le> scoreOf p \<and> scoreOf p \<le> 120"
  by (simp add: scoreOf_def Let_def)

text \<open>
  C3. A path to which a force-to-zero rule and the \<open>.sh\<close> bonus both apply should end
  with the score 0. \<open>computeScore\<close> adds the bonus after the three assignments of 0, and
  \<open>/\.sh/\<close> matches anywhere in the path: the shared library \<open>data.shared/libfoo.so\<close> and
  the installer \<open>tools.shipped/dxwebsetup.exe\<close> both score 20, and the library is kept
  by the scorer.
\<close>

theorem force_zero_undone_by_bonus:
  "test rx_shared_lib ''data.shared/libfoo.so'' \<and> test rx_sh ''data.shared/libfoo.so''
   \<and> scoreOf ''data.shared/libfoo.so'' = 20
   \<and> map path (computeScore [mk_candidate ''data.shared/libfoo.so'']) = [''data.shared/libfoo.so'']
   \<and> test rx_dxwebsetup ''tools.shipped/dxwebsetup.exe'' \<and> test rx_sh ''tools.shipped/dxwebsetup.exe''
   \<and> scoreOf ''tools.shipped/dxwebsetup.exe'' = 20"
  by code_simp

text \<open>
  C4. A candidate whose computed score is at most 0 never appears in the output of the
  scorer, and so never appears in the ranked output.
\<close>

theorem nonpositive_score_dropped:
  assumes "scoreOf p \<le> 0"
  shows "p \<notin> path ` set (computeScore execs)
       \<and> p \<notin> path ` set (ranked (scored env completion a ps))"
proof
  show "p \<notin> path ` set (computeScore execs)"
    using assms computeScore_sound by fastforce
  show "p \<notin> path ` set (ranked (scored env completion a ps))"
    using assms scored_sound by (fastforce simp: set_ranked)
qed

theorem nonpositive_score_dropped_witness:
  "scoreOf ''libfoo.so'' \<le> 0
   \<and> ''libfoo.so'' \<notin> path ` set (computeScore [mk_candidate ''game.exe'', mk_candidate ''libfoo.so''])
   \<and> ''libfoo.so'' \<notin> path ` set (ranked (scored
        (test_env [(''/app/game.exe'', 500), (''/app/libfoo.so'', 600)] 0) [0, 1] ''/app''
        [''game.exe'', ''libfoo.so'']))"
proof -
  have h: "scoreOf ''libfoo.so'' \<le> 0"
    by code_simp
  from nonpositive_score_dropped [OF h] h show ?thesis
    by blast
qed

section \<open>The ranking\<close>

text \<open>
  C5, as stated: two candidates with the same weight, score and depth are ranked in the
  order of the input sequence. The stat stage appends a candidate when its own probe
  settles; with \<open>a.exe\<close> before \<open>b.exe\<close> in the input, both of size 100, and the probe of
  \<open>b.exe\<close> settling first, the ranked output has \<open>b.exe\<close> before \<open>a.exe\<close>.
\<close>

theorem stat_order_counterexample:
  "map path (ranked (scored (test_env [(''/app/a.exe'', 100), (''/app/b.exe'', 100)] 0)
      [1, 0] ''/app'' [''a.exe'', ''b.exe''])) = [''b.exe'', ''a.exe'']
   \<and> map weight (ranked (scored (test_env [(''/app/a.exe'', 100), (''/app/b.exe'', 100)] 0)
      [1, 0] ''/app'' [''a.exe'', ''b.exe''])) = [Some 100, Some 100]
   \<and> map score (ranked (scored (test_env [(''/app/a.exe'', 100), (''/app/b.exe'', 100)] 0)
      [1, 0] ''/app'' [''a.exe'', ''b.exe''])) = [Some 100, Some 100]
   \<and> map depth (ranked (scored (test_env [(''/app/a.exe'', 100), (''/app/b.exe'', 100)] 0)
      [1, 0] ''/app'' [''a.exe'', ''b.exe''])) = [Some 1, Some 1]"
  by code_simp

text \<open>
  C5, amended: each of the three sorts is stable, so the candidates with one weight,
  score and depth are ranked in the order in which the stat stage put them out, which is
  the order in which their probes settled; when the probes settle in the order of the
  input, they are ranked in the order of the input sequence of declared paths.
\<close>

theorem ranking_stable:
  "map path (filter (\<lambda>x. weight x = w \<and> score x = s \<and> depth x = d)
               (ranked (scored env completion a ps)))
   = filter (\<lambda>p. retained env a p \<and> stat_size env (path_join env [a, p]) = w
                  \<and> Some (scoreOf p) = s \<and> Some (depthOf env p) = d)
       (map ((!) ps) (filter (\<lambda>i. i < length ps) completion))
   \<and> map path (filter (\<lambda>x. weight x = w \<and> score x = s \<and> depth x = d)
                 (ranked (scored env (in_order ps) a ps)))
     = filter (\<lambda>p. retained env a p \<and> stat_size env (path_join env [a, p]) = w
                    \<and> Some (scoreOf p) = s \<and> Some (depthOf env p) = d) ps"
proof -
  have general: "map path (filter (\<lambda>x. weight x = w \<and> score x = s \<and> depth x = d)
               (ranked (scored env js a ps)))
   = filter (\<lambda>p. retained env a p \<and> stat_size env (path_join env [a, p]) = w
                  \<and> Some (scoreOf p) = s \<and> Some (depthOf env p) = d)
       (map ((!) ps) (filter (\<lambda>i. i < length ps) js))" for js
  proof -
    have "map path (filter (\<lambda>x. weight x = w \<and> score x = s \<and> depth x = d)
               (ranked (scored env js a ps)))
        = map path (filter (\<lambda>x. weight x = w \<and> score x = s \<and> depth x = d)
            (map (annotated env a)
               (filter (retained env a) (map ((!) ps) (filter (\<lambda>i. i < length ps) js)))))"
      by (simp only: ranked_stable scored_settled)
    also have "\<dots> = filter (\<lambda>p. retained env a p \<and> stat_size env (path_join env [a, p]) = w
                  \<and> Some (scoreOf p) = s \<and> Some (depthOf env p) = d)
       (map ((!) ps) (filter (\<lambda>i. i < length ps) js))"
      by (induction js) (auto simp: annotated_def)
    finally show ?thesis .
  qed
  have "map ((!) ps) (filter (\<lambda>i. i < length ps) (in_order ps)) = ps"
    by (simp add: in_order_def map_nth)
  with general [of completion] general [of "in_order ps"] show ?thesis
    by simp
qed

theorem ranking_stable_witness:
  "map path (filter (\<lambda>x. weight x = Some 100 \<and> score x = Some 100 \<and> depth x = Some 1)
      (ranked (scored (test_env [(''/app/a.exe'', 100), (''/app/big.exe'', 900), (''/app/b.exe'', 100)] 0)
         [2, 0, 1] ''/app'' [''a.exe'', ''big.exe'', ''b.exe''])))
   = [''b.exe'', ''a.exe'']
   \<and> map path (filter (\<lambda>x. weight x = Some 100 \<and> score x = Some 100 \<and> depth x = Some 1)
      (ranked (scored (test_env [(''/app/a.exe'', 100), (''/app/big.exe'', 900), (''/app/b.exe'', 100)] 0)
         (in_order [''a.exe'', ''big.exe'', ''b.exe'']) ''/app'' [''a.exe'', ''big.exe'', ''b.exe''])))
   = [''a.exe'', ''b.exe'']"
proof -
  let ?E = "test_env [(''/app/a.exe'', 100), (''/app/big.exe'', 900), (''/app/b.exe'', 100)] 0"
  have settle: "filter (\<lambda>p. retained ?E ''/app'' p \<and> stat_size ?E (path_join ?E [''/app'', p]) = Some 100
                    \<and> Some (scoreOf p) = Some 100 \<and> Some (depthOf ?E p) = Some 1)
          (map ((!) [''a.exe'', ''big.exe'', ''b.exe''])
             (filter (\<lambda>i. i < length [''a.exe'', ''big.exe'', ''b.exe'']) [2, 0, 1]))
        = [''b.exe'', ''a.exe'']"
    by code_simp
  have input: "filter (\<lambda>p. retained ?E ''/app'' p \<and> stat_size ?E (path_join ?E [''/app'', p]) = Some 100
                    \<and> Some (scoreOf p) = Some 100 \<and> Some (depthOf ?E p) = Some 1)
          [''a.exe'', ''big.exe'', ''b.exe''] = [''a.exe'', ''b.exe'']"
    by code_simp
  from ranking_stable [of "Some 100" "Some 100" "Some 1" ?E "[2, 0, 1]" "''/app''"
      "[''a.exe'', ''big.exe'', ''b.exe'']"] settle input
  show ?thesis by simp
qed

section \<open>The process launcher\<close>

text \<open>
  C7. \<open>sh\<close> yields the typed failure \<open>Crash\<close>, carrying the executable path and a reason
  that ends with the exit code, exactly when the child exits with a code other than 0,
  and yields the confirmation message exactly when the exit code is 0.
\<close>

theorem sh_outcome:
  assumes "code = exit_code (spawn env (sh_request env exePath fullCommand))"
  shows "(sh env exePath fullCommand
            = Inl (Crash exePath (''process exited with code '' @ show_int code)) \<longleftrightarrow> code \<noteq> 0)
       \<and> (isl (sh env exePath fullCommand) \<longleftrightarrow> code \<noteq> 0)
       \<and> (sh env exePath fullCommand = Inr ''child completed successfully'' \<longleftrightarrow> code = 0)"
  using assms by (simp add: sh_def Let_def)

theorem sh_outcome_witness:
  "exit_code (spawn (test_env [] 1) (sh_request (test_env [] 1) ''/app/game.exe'' ''x'')) = 1
   \<and> sh (test_env [] 1) ''/app/game.exe'' ''x''
       = Inl (Crash ''/app/game.exe'' ''process exited with code 1'')
   \<and> exit_code (spawn (test_env [] 0) (sh_request (test_env [] 0) ''/app/game.exe'' ''x'')) = 0
   \<and> sh (test_env [] 0) ''/app/game.exe'' ''x'' = Inr ''child completed successfully''"
proof -
  have h1: "1 = exit_code (spawn (test_env [] 1) (sh_request (test_env [] 1) ''/app/game.exe'' ''x''))"
    by (simp add: test_env_def)
  have h0: "0 = exit_code (spawn (test_env [] 0) (sh_request (test_env [] 0) ''/app/game.exe'' ''x''))"
    by (simp add: test_env_def)
  have s: "show_int 1 = ''1''"
    by code_simp
  from sh_outcome [OF h1] sh_outcome [OF h0] h1 h0 s show ?thesis
    by simp
qed

text \<open>
  C8. When no candidate is left after the stat and scoring stages, \<open>launch\<close> fails with
  the error that carries the reason code \<open>game.install.no_executables_found\<close>; no
  candidate is selected and nothing is spawned.
\<close>

theorem launch_no_executables:
  assumes "opts_cave options = Some c"
      and "computeScore (computeWeight env completion (app_path env c)
             (map mk_candidate (executables c))) = []"
  shows "launch env completion options
         = Inl (Error ''After weighing/sorting, no executables left''
                  (Some [''game.install.no_executables_found'']))"
  using assms by (simp add: launch_def scored_def ranked_def sortBy_def computeDepth_def)

theorem launch_no_executables_witness:
  "opts_cave (test_opts [''missing.exe'', ''libfoo.so'']) = Some \<lparr>executables = [''missing.exe'', ''libfoo.so'']\<rparr>
   \<and> computeScore (computeWeight (test_env [(''/app/libfoo.so'', 600)] 0) [1, 0]
        (app_path (test_env [(''/app/libfoo.so'', 600)] 0) \<lparr>executables = [''missing.exe'', ''libfoo.so'']\<rparr>)
        (map mk_candidate (executables \<lparr>executables = [''missing.exe'', ''libfoo.so'']\<rparr>))) = []
   \<and> launch (test_env [(''/app/libfoo.so'', 600)] 0) [1, 0] (test_opts [''missing.exe'', ''libfoo.so''])
     = Inl (Error ''After weighing/sorting, no executables left''
              (Some [''game.install.no_executables_found'']))"
proof -
  let ?E = "test_env [(''/app/libfoo.so'', 600)] 0"
  let ?c = "\<lparr>executables = [''missing.exe'', ''libfoo.so'']\<rparr>"
  have h1: "opts_cave (test_opts [''missing.exe'', ''libfoo.so'']) = Some ?c"
    by (simp add: test_opts_def)
  have h2: "computeScore (computeWeight ?E [1, 0] (app_path ?E ?c)
              (map mk_candidate (executables ?c))) = []"
    by code_simp
  from launch_no_executables [OF h1 h2] h1 h2 show ?thesis
    by simp
qed

text \<open>
  C9. When the chosen path, joined to the install root, ends in \<open>.jar\<close> in any letter
  case, the command executed should be \<open>java\<close> with the arguments \<open>-jar\<close> and that path.
  \<open>launch\<close> builds the command line of \<open>java\<close>, \<open>-jar\<close> and the path, each between double
  quotes and with a backslash before every double quote of the path; it tokenizes this
  line, spawns the first token as the command with the other tokens as its arguments, in
  the directory of \<open>java\<close>, and the exit code decides its result. Only the double quote
  is protected: for \<open>a$b.jar\<close>, with a tokenizer that reads \<open>$b\<close> inside double quotes as
  an unset variable, the argument that is spawned is \<open>/app/a.jar\<close>.
\<close>

theorem launch_jar_spawn:
  assumes "opts_cave options = Some c"
      and "ranked (scored env completion (app_path env c) (executables c)) = best # rest"
      and "jarPath = path_join env [app_path env c, path best]"
      and "test rx_jar jarPath"
      and "line = [CHR 0x22] @ ''java'' @ [CHR 0x22] @ '' '' @ [CHR 0x22] @ ''-jar'' @ [CHR 0x22] @ '' ''
                  @ [CHR 0x22]
                  @ concat (map (\<lambda>ch. if ch = CHR 0x22 then [CHR 0x5C, CHR 0x22] else [ch]) jarPath)
                  @ [CHR 0x22]"
      and "toks = shell_parse env line"
      and "code = exit_code (spawn env
                    \<lparr>command = (case toks of [] \<Rightarrow> None | t # _ \<Rightarrow> Some t),
                     args = tl toks, cwd = Some (path_dirname env ''java'')\<rparr>)"
  shows "launch env completion options
         = (if code \<noteq> 0 then Inl (Crash ''java'' (''process exited with code '' @ show_int code))
            else Inr ''child completed successfully'')"
  using assms
  by (simp add: launch_def launchExecutable_def java_not_bundle Let_def escape_def sh_def
      sh_request_def)

theorem launch_jar_spawn_witness:
  "opts_cave (test_opts [''a$b.jar'']) = Some \<lparr>executables = [''a$b.jar'']\<rparr>
   \<and> map path (ranked (scored (shell_env [(''/app/a$b.jar'', 10)] 3) [0]
        (app_path (shell_env [(''/app/a$b.jar'', 10)] 3) \<lparr>executables = [''a$b.jar'']\<rparr>)
        (executables \<lparr>executables = [''a$b.jar'']\<rparr>))) = [''a$b.jar'']
   \<and> test rx_jar ''/app/a$b.jar''
   \<and> shell_parse (shell_env [(''/app/a$b.jar'', 10)] 3)
        ([CHR 0x22] @ ''java'' @ [CHR 0x22] @ '' '' @ [CHR 0x22] @ ''-jar'' @ [CHR 0x22] @ '' ''
         @ [CHR 0x22] @ ''/app/a$b.jar'' @ [CHR 0x22])
     = [''java'', ''-jar'', ''/app/a.jar'']
   \<and> exit_code (spawn (shell_env [(''/app/a$b.jar'', 10)] 3)
        \<lparr>command = Some ''java'', args = [''-jar'', ''/app/a.jar''], cwd = Some ''.''\<rparr>) = 3
   \<and> launch (shell_env [(''/app/a$b.jar'', 10)] 3) [0] (test_opts [''a$b.jar''])
     = Inl (Crash ''java'' ''process exited with code 3'')"
proof -
  let ?E = "shell_env [(''/app/a$b.jar'', 10)] 3"
  let ?c = "\<lparr>executables = [''a$b.jar'']\<rparr>"
  let ?best = "\<lparr>path = ''a$b.jar'', weight = Some 10, score = Some 100, depth = Some 1\<rparr>"
  let ?line = "[CHR 0x22] @ ''java'' @ [CHR 0x22] @ '' '' @ [CHR 0x22] @ ''-jar'' @ [CHR 0x22] @ '' ''
         @ [CHR 0x22]
         @ concat (map (\<lambda>ch. if ch = CHR 0x22 then [CHR 0x5C, CHR 0x22] else [ch]) ''/app/a$b.jar'')
         @ [CHR 0x22]"
  have h1: "opts_cave (test_opts [''a$b.jar'']) = Some ?c"
    by (simp add: test_opts_def)
  have s: "scoreOf ''a$b.jar'' = 100"
    by code_simp
  have h2: "ranked (scored ?E [0] (app_path ?E ?c) (executables ?c)) = ?best # []"
    by (simp add: s ranked_def scored_def sortBy_def computeDepth_def probe_def mk_candidate_def
        shell_env_def test_env_def depthOf_def Let_def)
  have h3: "''/app/a$b.jar'' = path_join ?E [app_path ?E ?c, path ?best]"
    by (simp add: shell_env_def test_env_def)
  have h4: "test rx_jar ''/app/a$b.jar''"
    by code_simp
  have toks: "shell_parse ?E ?line = [''java'', ''-jar'', ''/app/a.jar'']"
    by code_simp
  have code: "exit_code (spawn ?E \<lparr>command = Some ''java'', args = [''-jar'', ''/app/a.jar''],
                cwd = Some ''.''\<rparr>) = 3"
    by (simp add: shell_env_def test_env_def)
  have h7: "3 = exit_code (spawn ?E
                \<lparr>command = (case [''java'', ''-jar'', ''/app/a.jar''] of [] \<Rightarrow> None | t # _ \<Rightarrow> Some t),
                 args = tl [''java'', ''-jar'', ''/app/a.jar''],
                 cwd = Some (path_dirname ?E ''java'')\<rparr>)"
    by (simp add: shell_env_def test_env_def)
  have sh3: "show_int 3 = ''3''"
    by code_simp
  from launch_jar_spawn [OF h1 h2 h3 h4 refl toks [symmetric] h7] h1 h2 h4 toks code sh3
  show ?thesis
    by simp
qed

text \<open>
  C6. An argument that is escaped and then tokenized should come back as it was, as one
  token. \<open>escape\<close> puts a backslash before each double quote and leaves every other code
  unit as it is, the dollar sign among them: \<open>/app/a$b.jar\<close> reaches the tokenizer between
  double quotes with its \<open>$b\<close>, and a tokenizer that reads \<open>$b\<close> there as an unset variable
  gives back \<open>/app/a.jar\<close>.
\<close>

theorem escape_dollar:
  "escape ''/app/a$b.jar'' = CHR 0x22 # ''/app/a$b.jar'' @ [CHR 0x22]
   \<and> test_tokens (escape ''/app/a$b.jar'') = [''/app/a.jar'']"
  by code_simp

section \<open>The API client\<close>

text \<open>
  C10. \<open>ensureArray\<close> returns the empty array when its argument is falsy or the \<open>length\<close>
  of its argument is falsy, and returns the argument itself otherwise; it never throws.
\<close>

theorem ensureArray_result:
  "ensureArray v =
     Inr (if \<not> truthy v
             \<or> (case get_prop v ''length'' of Inl e \<Rightarrow> False | Inr len \<Rightarrow> \<not> truthy len)
          then Array [] else v)"
  by (cases v) (auto simp: ensureArray_def)

theorem ensureArray_result_witness:
  "ensureArray (Array []) = Inr (Array [])
   \<and> ensureArray (String []) = Inr (Array [])
   \<and> ensureArray (Object [(''id'', Number 1)]) = Inr (Array [])
   \<and> ensureArray Null = Inr (Array [])
   \<and> ensureArray (Array [Number 1]) = Inr (Array [Number 1])
   \<and> ensureArray (Object [(''length'', Number 2)]) = Inr (Object [(''length'', Number 2)])"
  using ensureArray_result [of "Array []"] ensureArray_result [of "String []"]
    ensureArray_result [of "Object [(''id'', Number 1)]"] ensureArray_result [of Null]
    ensureArray_result [of "Array [Number 1]"]
    ensureArray_result [of "Object [(''length'', Number 2)]"]
  by simp

end
